theory Spec2Isabelle
  imports Main
begin

section \<open>Data model\<close>

text \<open>
  Modelled from the spec: the struct \<open>stor.LicenseInfo\<close>, whose declaration is not among
  the source files. The record has the fields of the License Record of the specification,
  under the names the handlers use where they name a field (\<open>ID\<close>, \<open>CreatedAt\<close>,
  \<open>UpdatedAt\<close>, \<open>Status\<close>, \<open>Start\<close>, \<open>End\<close>, \<open>MaxEnd\<close>) and under the names of the
  specification otherwise. The handlers copy and store Go's \<open>time.Time\<close> values (an
  instant together with a \<open>Location\<close>) and compute on them only through
  \<open>Time.AddDate\<close>, so the type \<open>'t\<close> of these values is left open; a nil \<open>*time.Time\<close>
  is \<open>None\<close>.
\<close>

record 't LicenseInfo =
  ID :: nat
  CreatedAt :: 't
  UpdatedAt :: 't
  publicationRef :: string
  userRef :: string
  Status :: string
  Start :: "'t option"
  End :: "'t option"
  MaxEnd :: "'t option"
  deviceMax :: nat
  deviceCount :: nat

text \<open>
  Modelled from the spec: the status values. The handlers name \<open>stor.STATUS_READY\<close>,
  a constant declared with \<open>LicenseInfo\<close>; the specification lists the states
  \<open>ready\<close>, \<open>active\<close>, \<open>expired\<close>, \<open>returned\<close>, \<open>revoked\<close> and \<open>cancelled\<close>.
\<close>

definition STATUS_READY :: string where
  "STATUS_READY = ''ready''"

definition STATUS_ACTIVE :: string where
  "STATUS_ACTIVE = ''active''"

definition STATUS_EXPIRED :: string where
  "STATUS_EXPIRED = ''expired''"

definition STATUS_RETURNED :: string where
  "STATUS_RETURNED = ''returned''"

definition STATUS_REVOKED :: string where
  "STATUS_REVOKED = ''revoked''"

definition STATUS_CANCELLED :: string where
  "STATUS_CANCELLED = ''cancelled''"

section \<open>Status engine and renewal policy\<close>

text \<open>
  Modelled from the spec: the specification speaks of points in time that are compared
  (\<open>now > end\<close>) and moved by a number of days (\<open>end + maxRenewDays\<close>). They are
  instants on an integer line, counted in nanoseconds, and a day is 86400 seconds.
\<close>

type_synonym time = int

definition nanos_per_day :: int where
  "nanos_per_day = 86400 * 1000000000"

definition add_days :: "time \<Rightarrow> int \<Rightarrow> time" where
  "add_days t days = t + days * nanos_per_day"

text \<open>
  Modelled from the spec: the terminal statuses of the status engine, \<open>returned\<close>,
  \<open>revoked\<close> and \<open>cancelled\<close>.
\<close>

definition is_terminal :: "string \<Rightarrow> bool" where
  "is_terminal s = (s = STATUS_RETURNED \<or> s = STATUS_REVOKED \<or> s = STATUS_CANCELLED)"

text \<open>
  Modelled from the spec: the function \<open>currentStatus(record, now)\<close> of the status
  engine is not among the source files. The four cases follow the transition list of the
  specification in its order: a terminal status is returned unchanged; otherwise
  \<open>expired\<close> when \<open>end\<close> is set and \<open>now > end\<close>; otherwise \<open>active\<close> when
  \<open>deviceCount \<ge> 1\<close>; otherwise \<open>ready\<close>.
\<close>

definition currentStatus :: "time LicenseInfo \<Rightarrow> time \<Rightarrow> string" where
  "currentStatus record now =
     (if is_terminal (Status record) then Status record
      else if (case End record of None \<Rightarrow> False | Some e \<Rightarrow> now > e) then STATUS_EXPIRED
      else if deviceCount record \<ge> 1 then STATUS_ACTIVE
      else STATUS_READY)"

text \<open>
  Modelled from the spec: the error kinds with which the renewal policy rejects a renewal.
\<close>

datatype renew_error = InvalidState | RenewalTooLate | RenewalInPast

text \<open>
  Modelled from the spec: the renewal policy \<open>renew(record, requestedEnd, now,
  maxRenewDays)\<close> is not among the source files. The checks come in the order the
  specification lists them. The specification calls the end that is checked and then
  stored \<open>requestedEnd\<close> also when it was computed as the default
  \<open>max(record.end, now) + maxRenewDays\<close>, so the checks below apply to the request's end
  when one is given and to the default otherwise; with \<open>record.end\<close> nil the default starts
  from \<open>now\<close>. The result is the updated record, whose \<open>End\<close> is the new end.
\<close>

definition renew ::
  "time LicenseInfo \<Rightarrow> time option \<Rightarrow> time \<Rightarrow> int \<Rightarrow> renew_error + time LicenseInfo" where
  "renew record requestedEnd now maxRenewDays =
     (let st = currentStatus record now in
      if st \<noteq> STATUS_ACTIVE \<and> st \<noteq> STATUS_READY then Inl InvalidState
      else
        let newEnd = (case requestedEnd of
                        Some q \<Rightarrow> q
                      | None \<Rightarrow> add_days (case End record of None \<Rightarrow> now | Some e \<Rightarrow> max e now)
                                  maxRenewDays)
        in if (case MaxEnd record of None \<Rightarrow> False | Some m \<Rightarrow> newEnd > m)
           then Inl RenewalTooLate
           else if newEnd \<le> now \<or> (case End record of None \<Rightarrow> False | Some e \<Rightarrow> newEnd < e)
           then Inl RenewalInPast
           else Inr (record\<lparr>End := Some newEnd,
                            MaxEnd := (case MaxEnd record of None \<Rightarrow> Some newEnd | Some m \<Rightarrow> Some m),
                            UpdatedAt := now\<rparr>))"

section \<open>Go library functions the handlers call\<close>

text \<open>
  Errors are values. \<open>NumError\<close> is \<open>strconv.NumError\<close> with its fields \<open>Func\<close>,
  \<open>Num\<close> and \<open>Err\<close>; every other error is its message.
\<close>

datatype num_err = ErrSyntax | ErrRange

datatype error = Error string | NumError string string num_err

text \<open>
  \<open>strings.Split(s, sep)\<close> for a separator of one byte, as the handler calls it with
  \<open>":"\<close>: the pieces of \<open>s\<close> between the separators, one more than there are separators.
\<close>

fun Split :: "string \<Rightarrow> char \<Rightarrow> string list" where
  "Split [] sep = [[]]"
| "Split (c # cs) sep =
     (if c = sep then [] # Split cs sep
      else (case Split cs sep of [] \<Rightarrow> [[c]] | p # ps \<Rightarrow> (c # p) # ps))"

text \<open>
  \<open>strconv.Atoi\<close>, with the functions of \<open>strconv\<close> it is made of. A result is the
  value returned together with the kind of error, if any; \<open>Atoi\<close> wraps the kind into
  a \<open>NumError\<close> that names the function and the input. The size of \<open>int\<close>
  (\<open>strconv.IntSize\<close>, 32 or 64) is an argument.
\<close>

definition is_digit :: "char \<Rightarrow> bool" where
  "is_digit c = (48 \<le> (of_char c :: nat) \<and> (of_char c :: nat) \<le> 57)"

definition maxUint64 :: int where
  "maxUint64 = 2 ^ 64 - 1"

text \<open>
  The loop of \<open>ParseUint\<close> in base 10, byte by byte from the left with the value \<open>n\<close>
  read so far: a byte that is no digit is a syntax error with value 0; then
  \<open>n \<ge> maxUint64/10 + 1\<close> is a range error with value \<open>maxVal\<close>; then \<open>n*10 + d\<close>,
  computed in 64 bits, is a range error when it wrapped around or exceeds \<open>maxVal\<close>. A
  string that overflows is thus rejected where it overflows, whatever follows.
\<close>

fun ParseUint_digits :: "int \<Rightarrow> string \<Rightarrow> int \<Rightarrow> int \<times> num_err option" where
  "ParseUint_digits maxVal [] n = (n, None)"
| "ParseUint_digits maxVal (c # cs) n =
     (if is_digit c then
        (if n \<ge> maxUint64 div 10 + 1 then (maxVal, Some ErrRange)
         else
           let m = (n * 10) mod 2 ^ 64;
               n1 = (m + (of_char c - 48)) mod 2 ^ 64
           in if n1 < m \<or> n1 > maxVal then (maxVal, Some ErrRange)
              else ParseUint_digits maxVal cs n1)
      else (0, Some ErrSyntax))"

definition ParseUint :: "nat \<Rightarrow> string \<Rightarrow> int \<times> num_err option" where
  "ParseUint bitSize s =
     (if s = [] then (0, Some ErrSyntax) else ParseUint_digits (2 ^ bitSize - 1) s 0)"

text \<open>
  \<open>ParseInt(s, 10, 0)\<close>: the sign is taken off, the rest goes to \<open>ParseUint\<close>; a syntax
  error gives 0, and a value out of the range of \<open>int\<close> (also the \<open>maxVal\<close> of a range
  error of \<open>ParseUint\<close>) gives the nearest bound with a range error.
\<close>

definition ParseInt :: "nat \<Rightarrow> string \<Rightarrow> int \<times> num_err option" where
  "ParseInt bitSize s0 =
     (if s0 = [] then (0, Some ErrSyntax)
      else
        let neg = (hd s0 = CHR ''-'');
            s = (if hd s0 = CHR ''+'' \<or> hd s0 = CHR ''-'' then tl s0 else s0);
            (un, err) = ParseUint bitSize s
        in if err = Some ErrSyntax then (0, Some ErrSyntax)
           else
             let cutoff = 2 ^ (bitSize - 1)
             in if \<not> neg \<and> un \<ge> cutoff then (cutoff - 1, Some ErrRange)
                else if neg \<and> un > cutoff then (- cutoff, Some ErrRange)
                else (if neg then - un else un, None))"

text \<open>The loop of the fast path of \<open>Atoi\<close>: \<open>None\<close> at a byte that is no digit.\<close>

fun Atoi_digits :: "string \<Rightarrow> int \<Rightarrow> int option" where
  "Atoi_digits [] n = Some n"
| "Atoi_digits (ch # s) n =
     (if is_digit ch then Atoi_digits s (n * 10 + (of_char ch - 48)) else None)"

text \<open>
  \<open>Atoi\<close> takes the fast path for a string short enough to fit \<open>int\<close> (fewer than 10
  bytes for 32 bits, fewer than 19 for 64) and calls \<open>ParseInt(s, 10, 0)\<close> for every other
  string.
\<close>

definition Atoi :: "nat \<Rightarrow> string \<Rightarrow> int \<times> error option" where
  "Atoi intSize s0 =
     (if (intSize = 32 \<and> 0 < length s0 \<and> length s0 < 10) \<or>
         (intSize = 64 \<and> 0 < length s0 \<and> length s0 < 19)
      then
        (let s = (if hd s0 = CHR ''-'' \<or> hd s0 = CHR ''+'' then tl s0 else s0)
         in if s = [] then (0, Some (NumError ''Atoi'' s0 ErrSyntax))
            else (case Atoi_digits s 0 of
                    None \<Rightarrow> (0, Some (NumError ''Atoi'' s0 ErrSyntax))
                  | Some n \<Rightarrow> (if hd s0 = CHR ''-'' then - n else n, None)))
      else
        (case ParseInt intSize s0 of
           (i, None) \<Rightarrow> (i, None)
         | (i, Some e) \<Rightarrow> (i, Some (NumError ''Atoi'' s0 e))))"

section \<open>The store, requests and responses\<close>

text \<open>
  The handlers reach the database through \<open>h.Store.License()\<close>, an interface whose
  implementation is not among the source files. It is a parameter of the model: a record
  of operations over a store state \<open>'s\<close>, each returning its result and the next state.
  \<open>Create\<close>, \<open>Update\<close> and \<open>Delete\<close> receive a pointer to the record, so they
  also return the record as they leave it behind that pointer.
\<close>

record ('s, 't) LicenseRepository =
  ListAll :: "'s \<Rightarrow> (error + 't LicenseInfo list) \<times> 's"
  FindByUser :: "'s \<Rightarrow> string \<Rightarrow> (error + 't LicenseInfo list) \<times> 's"
  FindByPublication :: "'s \<Rightarrow> string \<Rightarrow> (error + 't LicenseInfo list) \<times> 's"
  FindByStatus :: "'s \<Rightarrow> string \<Rightarrow> (error + 't LicenseInfo list) \<times> 's"
  FindByDeviceCount :: "'s \<Rightarrow> int \<Rightarrow> int \<Rightarrow> (error + 't LicenseInfo list) \<times> 's"
  Get :: "'s \<Rightarrow> string \<Rightarrow> (error + 't LicenseInfo) \<times> 's"
  Create :: "'s \<Rightarrow> 't LicenseInfo \<Rightarrow> (error option \<times> 't LicenseInfo) \<times> 's"
  Update :: "'s \<Rightarrow> 't LicenseInfo \<Rightarrow> (error option \<times> 't LicenseInfo) \<times> 's"
  Delete :: "'s \<Rightarrow> 't LicenseInfo \<Rightarrow> (error option \<times> 't LicenseInfo) \<times> 's"

text \<open>The calls a handler makes on the store, in order, with their arguments.\<close>

datatype 't store_call =
    Call_ListAll
  | Call_FindByUser string
  | Call_FindByPublication string
  | Call_FindByStatus string
  | Call_FindByDeviceCount int int
  | Call_Get string
  | Call_Create "'t LicenseInfo"
  | Call_Update "'t LicenseInfo"
  | Call_Delete "'t LicenseInfo"

text \<open>
  What \<open>render.Render\<close> and \<open>render.RenderList\<close> write: one of the error responses, or
  a license with its HTTP status, or a list of licenses.
\<close>

datatype 't response =
    ErrInvalidRequest error
  | ErrNotFound
  | ErrRender error
  | Rendered nat "'t LicenseInfo"
  | RenderedList "'t LicenseInfo list"

text \<open>
  A request as the handlers read it: \<open>r.URL.Query().Get\<close>, \<open>chi.URLParam\<close>, and the
  body as the JSON decoder leaves it in \<open>LicenseInfoRequest\<close> (an error, or the embedded
  pointer, nil when the body names none of its fields).
\<close>

record 't request =
  query :: "string \<Rightarrow> string"
  URLParam :: "string \<Rightarrow> string"
  decoded :: "error + 't LicenseInfo option"

text \<open>
  The handler with what it holds: the store, \<open>h.Config.Status.RenewMaxDays\<close>, and
  \<open>LicenseInfo.Validate\<close>, which is declared in the package \<open>stor\<close>. Beside them stand
  two things of the Go installation the handler runs on, parameters as well:
  \<open>AddDate h t years months days\<close> is \<open>t.AddDate(years, months, days)\<close>, which moves
  the calendar date of \<open>t\<close> in the \<open>Location\<close> of \<open>t\<close> and so depends on the time-zone
  rules installed; \<open>IntSize\<close> is \<open>strconv.IntSize\<close>.
\<close>

record ('s, 't) APIHandler =
  Store :: "('s, 't) LicenseRepository"
  RenewMaxDays :: int
  Validate :: "'t LicenseInfo option \<Rightarrow> error option"
  AddDate :: "'t \<Rightarrow> int \<Rightarrow> int \<Rightarrow> int \<Rightarrow> 't"
  IntSize :: nat

text \<open>
  The outcome of a handler: the responses written, the store calls made, the store state
  it leaves, and whether it ended in a nil-pointer panic.
\<close>

record ('s, 't) outcome =
  writes :: "'t response list"
  calls :: "'t store_call list"
  db :: 's
  panicked :: bool

section \<open>The license handlers\<close>

text \<open>
  \<open>render.Bind\<close> decodes the body and then calls \<open>LicenseInfoRequest.Bind\<close>, which
  returns \<open>l.LicenseInfo.Validate()\<close>.
\<close>

definition Bind :: "('s, 't) APIHandler \<Rightarrow> 't request \<Rightarrow> error + 't LicenseInfo option" where
  "Bind h r =
     (case decoded r of
        Inl err \<Rightarrow> Inl err
      | Inr data \<Rightarrow> (case Validate h data of Some err \<Rightarrow> Inl err | None \<Rightarrow> Inr data))"

definition respond :: "'t response list \<Rightarrow> 't store_call list \<Rightarrow> 's \<Rightarrow> ('s, 't) outcome" where
  "respond ws cs s = \<lparr>writes = ws, calls = cs, db = s, panicked = False\<rparr>"

definition panic :: "'t response list \<Rightarrow> 't store_call list \<Rightarrow> 's \<Rightarrow> ('s, 't) outcome" where
  "panic ws cs s = \<lparr>writes = ws, calls = cs, db = s, panicked = True\<rparr>"

text \<open>
  The end shared by \<open>ListLicenses\<close> and \<open>SearchLicenses\<close>: an error of the store is
  rendered, otherwise the list is; \<open>ws\<close> are the responses written before.
  \<open>LicenseInfoResponse.Render\<close> returns nil, so rendering a license or a list does not
  fail.
\<close>

definition render_licenses ::
  "'t response list \<Rightarrow> 't store_call list \<Rightarrow> (error + 't LicenseInfo list) \<times> 's
     \<Rightarrow> ('s, 't) outcome" where
  "render_licenses ws cs res =
     (case res of
        (Inl err, s) \<Rightarrow> respond (ws @ [ErrRender err]) cs s
      | (Inr licenses, s) \<Rightarrow> respond (ws @ [RenderedList licenses]) cs s)"

definition ListLicenses ::
  "('s, 't) APIHandler \<Rightarrow> 's \<Rightarrow> 't request \<Rightarrow> ('s, 't) outcome" where
  "ListLicenses h s r = render_licenses [] [Call_ListAll] (ListAll (Store h) s)"

text \<open>
  In the branch for \<open>count\<close>, a part that \<open>Atoi\<close> rejects writes
  \<open>ErrInvalidRequest\<close> and the handler goes on: both parts are parsed, the store is
  queried with the values \<open>Atoi\<close> returned, and the result of that query is rendered.
\<close>

definition SearchLicenses ::
  "('s, 't) APIHandler \<Rightarrow> 's \<Rightarrow> 't request \<Rightarrow> ('s, 't) outcome" where
  "SearchLicenses h s r =
     (let userID = query r ''user''; pubID = query r ''pub'';
          status = query r ''status''; count = query r ''count''
      in if userID \<noteq> [] then
           render_licenses [] [Call_FindByUser userID] (FindByUser (Store h) s userID)
         else if pubID \<noteq> [] then
           render_licenses [] [Call_FindByPublication pubID] (FindByPublication (Store h) s pubID)
         else if status \<noteq> [] then
           render_licenses [] [Call_FindByStatus status] (FindByStatus (Store h) s status)
         else if count \<noteq> [] then
           (let parts = Split count CHR '':'' in
            if length parts \<noteq> 2 then
              respond [ErrInvalidRequest (Error (''invalid count parameter: '' @ count))] [] s
            else
              let (min, err1) = Atoi (IntSize h) (parts ! 0);
                  ws1 = (case err1 of Some err \<Rightarrow> [ErrInvalidRequest err] | None \<Rightarrow> []);
                  (max, err2) = Atoi (IntSize h) (parts ! 1);
                  ws2 = (case err2 of Some err \<Rightarrow> [ErrInvalidRequest err] | None \<Rightarrow> [])
              in render_licenses (ws1 @ ws2) [Call_FindByDeviceCount min max]
                   (FindByDeviceCount (Store h) s min max))
         else respond [ErrNotFound] [] s)"


definition GetLicense ::
  "('s, 't) APIHandler \<Rightarrow> 's \<Rightarrow> 't request \<Rightarrow> ('s, 't) outcome" where
  "GetLicense h s r =
     (let licenseID = URLParam r ''licenseID'' in
      if licenseID \<noteq> [] then
        (case Get (Store h) s licenseID of
           (Inl err, s') \<Rightarrow> respond [ErrNotFound] [Call_Get licenseID] s'
         | (Inr license, s') \<Rightarrow> respond [Rendered 200 license] [Call_Get licenseID] s')
      else respond [ErrInvalidRequest (Error ''missing required license identifier'')] [] s)"

text \<open>
  \<open>UpdateLicense\<close> overwrites \<open>ID\<close> and \<open>CreatedAt\<close> of the payload with those of the
  stored record and hands the payload to the store; the assignments to the payload are
  where a nil payload panics, after the store's \<open>Get\<close>.
\<close>

definition UpdateLicense ::
  "('s, 't) APIHandler \<Rightarrow> 's \<Rightarrow> 't request \<Rightarrow> ('s, 't) outcome" where
  "UpdateLicense h s r =
     (case Bind h r of
        Inl err \<Rightarrow> respond [ErrInvalidRequest err] [] s
      | Inr data \<Rightarrow>
          let licenseID = URLParam r ''licenseID'' in
          if licenseID \<noteq> [] then
            (case Get (Store h) s licenseID of
               (Inl err, s') \<Rightarrow> respond [ErrNotFound] [Call_Get licenseID] s'
             | (Inr currentLic, s') \<Rightarrow>
                 (case data of
                    None \<Rightarrow> panic [] [Call_Get licenseID] s'
                  | Some payload \<Rightarrow>
                      let license = payload\<lparr>ID := ID currentLic, CreatedAt := CreatedAt currentLic\<rparr>
                      in (case Update (Store h) s' license of
                            ((Some err, _), s'') \<Rightarrow>
                              respond [ErrRender err] [Call_Get licenseID, Call_Update license] s''
                          | ((None, license'), s'') \<Rightarrow>
                              respond [Rendered 200 license'] [Call_Get licenseID, Call_Update license] s'')))
          else respond [ErrNotFound] [] s)"

definition DeleteLicense ::
  "('s, 't) APIHandler \<Rightarrow> 's \<Rightarrow> 't request \<Rightarrow> ('s, 't) outcome" where
  "DeleteLicense h s r =
     (let licenseID = URLParam r ''licenseID'' in
      if licenseID \<noteq> [] then
        (case Get (Store h) s licenseID of
           (Inl err, s') \<Rightarrow> respond [ErrNotFound] [Call_Get licenseID] s'
         | (Inr license, s') \<Rightarrow>
             (case Delete (Store h) s' license of
                ((Some err, _), s'') \<Rightarrow>
                  respond [ErrInvalidRequest err] [Call_Get licenseID, Call_Delete license] s''
              | ((None, license'), s'') \<Rightarrow>
                  respond [Rendered 200 license'] [Call_Get licenseID, Call_Delete license] s''))
      else respond [ErrNotFound] [] s)"

section \<open>What a search does, for stating it\<close>

text \<open>
  \<open>single_query call res out\<close>: the outcome \<open>out\<close> made the store call \<open>call\<close> and no
  other, wrote one response, which is the list \<open>res\<close> holds or the error it holds, left the
  store in the state \<open>res\<close> holds, and did not panic. \<open>no_query resp s out\<close>: the outcome
  wrote the one response \<open>resp\<close>, made no store call and left the store in the state
  \<open>s\<close>.
\<close>

definition single_query ::
  "'t store_call \<Rightarrow> (error + 't LicenseInfo list) \<times> 's \<Rightarrow> ('s, 't) outcome \<Rightarrow> bool" where
  "single_query call res out =
     (calls out = [call] \<and>
      writes out = [case fst res of Inl err \<Rightarrow> ErrRender err | Inr licenses \<Rightarrow> RenderedList licenses] \<and>
      db out = snd res \<and> panicked out = False)"

definition no_query :: "'t response \<Rightarrow> 's \<Rightarrow> ('s, 't) outcome \<Rightarrow> bool" where
  "no_query resp s out =
     (calls out = [] \<and> writes out = [resp] \<and> db out = s \<and> panicked out = False)"

section \<open>Sample inputs\<close>

definition sample_license :: "time LicenseInfo" where
  "sample_license =
     \<lparr>ID = 7, CreatedAt = 500, UpdatedAt = 600, publicationRef = ''pub-1'',
      userRef = ''user-1'', Status = ''ready'', Start = None, End = Some 1000,
      MaxEnd = None, deviceMax = 2, deviceCount = 0\<rparr>"

text \<open>
  A store of one slot, addressed by the identifier \<open>lic-1\<close>, for running the handlers
  on concrete requests: \<open>Create\<close> assigns the identifier 1, \<open>Update\<close> replaces the slot,
  \<open>Delete\<close> empties it, and every search returns what the slot holds.
\<close>

definition slot_licenses ::
  "time LicenseInfo option \<Rightarrow> (error + time LicenseInfo list) \<times> time LicenseInfo option" where
  "slot_licenses s = (Inr (case s of None \<Rightarrow> [] | Some l \<Rightarrow> [l]), s)"

definition slot_store :: "(time LicenseInfo option, time) LicenseRepository" where
  "slot_store =
     \<lparr>ListAll = slot_licenses,
      FindByUser = (\<lambda>s u. slot_licenses s),
      FindByPublication = (\<lambda>s p. slot_licenses s),
      FindByStatus = (\<lambda>s st. slot_licenses s),
      FindByDeviceCount = (\<lambda>s lo hi. slot_licenses s),
      Get = (\<lambda>s k. (if k = ''lic-1'' \<and> s \<noteq> None then Inr (the s)
                      else Inl (Error ''record not found''), s)),
      Create = (\<lambda>s l. ((None, l\<lparr>ID := 1\<rparr>), Some (l\<lparr>ID := 1\<rparr>))),
      Update = (\<lambda>s l. ((None, l), Some l)),
      Delete = (\<lambda>s l. ((None, l), None))\<rparr>"

text \<open>
  A handler over that store, with 30 renewal days, a \<open>Validate\<close> that accepts every
  payload, the \<open>AddDate\<close> of instants in UTC moved by days only, and an \<open>int\<close> of 64
  bits.
\<close>

definition sample_handler :: "(time LicenseInfo option, time) APIHandler" where
  "sample_handler =
     \<lparr>Store = slot_store, RenewMaxDays = 30, Validate = (\<lambda>data. None),
      AddDate = (\<lambda>t years months days. t + days * nanos_per_day), IntSize = 64\<rparr>"

definition search_request :: "string \<Rightarrow> string \<Rightarrow> string \<Rightarrow> string \<Rightarrow> time request" where
  "search_request user pub status count =
     \<lparr>query = (\<lambda>k. if k = ''user'' then user else if k = ''pub'' then pub
                    else if k = ''status'' then status else if k = ''count'' then count
                    else []),
      URLParam = (\<lambda>k. []),
      decoded = Inr None\<rparr>"

definition license_request :: "string \<Rightarrow> time LicenseInfo \<Rightarrow> time request" where
  "license_request licenseID payload =
     \<lparr>query = (\<lambda>k. []),
      URLParam = (\<lambda>k. if k = ''licenseID'' then licenseID else []),
      decoded = Inr (Some payload)\<rparr>"

section \<open>Properties of the status engine\<close>

text \<open>
  C7. Terminal statuses are sticky: for a record whose status is \<open>returned\<close>,
  \<open>revoked\<close> or \<open>cancelled\<close>, \<open>currentStatus\<close> returns that status, whatever the
  values of \<open>now\<close>, \<open>end\<close> and \<open>deviceCount\<close>.
\<close>

theorem currentStatus_terminal_sticky:
  assumes "Status lic \<in> {STATUS_RETURNED, STATUS_REVOKED, STATUS_CANCELLED}"
  shows "currentStatus (lic\<lparr>End := e, deviceCount := n\<rparr>) now = Status lic"
  using assms by (auto simp: currentStatus_def is_terminal_def)

theorem currentStatus_terminal_sticky_witness:
  "Status (sample_license\<lparr>Status := STATUS_REVOKED\<rparr>)
     \<in> {STATUS_RETURNED, STATUS_REVOKED, STATUS_CANCELLED}
   \<and> currentStatus (sample_license\<lparr>Status := STATUS_REVOKED, End := Some 10, deviceCount := 3\<rparr>) 2000
     = STATUS_REVOKED"
  using currentStatus_terminal_sticky
    [where lic = "sample_license\<lparr>Status := STATUS_REVOKED\<rparr>"
       and e = "Some 10" and n = 3 and now = 2000]
  by simp

section \<open>Creating a license\<close>







section \<open>Updating a license\<close>

text \<open>
  The runs of \<open>UpdateLicense\<close>: it stops before the store when \<open>Bind\<close> fails or the
  identifier is empty, after \<open>Get\<close> when the record is absent or the payload is nil, and
  otherwise updates the store with the payload carrying the stored \<open>ID\<close> and
  \<open>CreatedAt\<close>.
\<close>

lemma UpdateLicense_run:
  assumes b: "Bind h r = Inr (Some p)"
    and k: "URLParam r ''licenseID'' \<noteq> []"
    and g: "Get (Store h) s (URLParam r ''licenseID'') = (Inr cur, s1)"
    and u: "Update (Store h) s1 (p\<lparr>ID := ID cur, CreatedAt := CreatedAt cur\<rparr>) = ((e, lic'), s2)"
  shows "UpdateLicense h s r =
           respond [case e of Some err \<Rightarrow> ErrRender err | None \<Rightarrow> Rendered 200 lic']
             [Call_Get (URLParam r ''licenseID''),
              Call_Update (p\<lparr>ID := ID cur, CreatedAt := CreatedAt cur\<rparr>)] s2"
  using b k g u by (cases e) (simp_all add: UpdateLicense_def Let_def)

lemma UpdateLicense_absent:
  assumes b: "Bind h r = Inr data"
    and k: "URLParam r ''licenseID'' \<noteq> []"
    and g: "Get (Store h) s (URLParam r ''licenseID'') = (Inl err, s1)"
  shows "UpdateLicense h s r = respond [ErrNotFound] [Call_Get (URLParam r ''licenseID'')] s1"
  using b k g by (simp add: UpdateLicense_def Let_def)

lemma UpdateLicense_nil_payload:
  assumes b: "Bind h r = Inr None"
    and k: "URLParam r ''licenseID'' \<noteq> []"
    and g: "Get (Store h) s (URLParam r ''licenseID'') = (Inr cur, s1)"
  shows "UpdateLicense h s r = panic [] [Call_Get (URLParam r ''licenseID'')] s1"
  using b k g by (simp add: UpdateLicense_def Let_def)

lemma UpdateLicense_no_call:
  assumes "(\<exists>err. Bind h r = Inl err) \<or> URLParam r ''licenseID'' = []"
  shows "calls (UpdateLicense h s r) = []"
proof (cases "Bind h r")
  case (Inl err)
  then show ?thesis by (simp add: UpdateLicense_def respond_def)
next
  case (Inr data)
  with assms have "URLParam r ''licenseID'' = []" by auto
  with Inr show ?thesis by (simp add: UpdateLicense_def Let_def respond_def)
qed

lemma UpdateLicense_written:
  assumes w: "Call_Update lic \<in> set (calls (UpdateLicense h s r))"
  shows "\<exists>p cur s1. Bind h r = Inr (Some p) \<and> URLParam r ''licenseID'' \<noteq> [] \<and>
           Get (Store h) s (URLParam r ''licenseID'') = (Inr cur, s1) \<and>
           lic = p\<lparr>ID := ID cur, CreatedAt := CreatedAt cur\<rparr>"
proof -
  let ?k = "URLParam r ''licenseID''"
  have k: "?k \<noteq> []" and nb: "\<forall>err. Bind h r \<noteq> Inl err"
    using w UpdateLicense_no_call [of h r s] by auto
  from nb obtain data where b: "Bind h r = Inr data"
    by (cases "Bind h r") auto
  obtain res s1 where g: "Get (Store h) s ?k = (res, s1)"
    by (cases "Get (Store h) s ?k")
  show ?thesis
  proof (cases res)
    case (Inl err)
    with g have "Get (Store h) s ?k = (Inl err, s1)" by simp
    from UpdateLicense_absent [OF b k this] w show ?thesis
      by (simp add: respond_def)
  next
    case (Inr cur)
    with g have g': "Get (Store h) s ?k = (Inr cur, s1)" by simp
    show ?thesis
    proof (cases data)
      case None
      with b have "Bind h r = Inr None" by simp
      from UpdateLicense_nil_payload [OF this k g'] w show ?thesis
        by (simp add: panic_def)
    next
      case (Some p)
      with b have b': "Bind h r = Inr (Some p)" by simp
      obtain e lic' s2 where
        u: "Update (Store h) s1 (p\<lparr>ID := ID cur, CreatedAt := CreatedAt cur\<rparr>) = ((e, lic'), s2)"
        by (metis prod.collapse)
      from UpdateLicense_run [OF b' k g' u] w
      have "lic = p\<lparr>ID := ID cur, CreatedAt := CreatedAt cur\<rparr>"
        by (simp add: respond_def)
      with b' k g' show ?thesis by blast
    qed
  qed
qed

text \<open>
  C3, as the code has it. For every \<open>UpdateLicense\<close> call on an existing record, the
  status of the record handed to the store's \<open>Update\<close> is the status of the request
  payload: the handler takes \<open>ID\<close> and \<open>CreatedAt\<close> from the stored record, and nothing
  else.
\<close>

theorem UpdateLicense_status_of_payload:
  assumes "Bind h r = Inr (Some p)"
    and "Call_Update lic \<in> set (calls (UpdateLicense h s r))"
  shows "Status lic = Status p"
  using UpdateLicense_written [OF assms(2)] assms(1) by auto

theorem UpdateLicense_status_of_payload_witness:
  "Bind sample_handler (license_request ''lic-1'' (sample_license\<lparr>Status := STATUS_REVOKED\<rparr>))
     = Inr (Some (sample_license\<lparr>Status := STATUS_REVOKED\<rparr>))
   \<and> Call_Update (sample_license\<lparr>Status := STATUS_REVOKED\<rparr>)
       \<in> set (calls (UpdateLicense sample_handler (Some sample_license)
           (license_request ''lic-1'' (sample_license\<lparr>Status := STATUS_REVOKED\<rparr>))))
   \<and> Status (sample_license\<lparr>Status := STATUS_REVOKED\<rparr>) = STATUS_REVOKED"
  using UpdateLicense_status_of_payload [of sample_handler
      "license_request ''lic-1'' (sample_license\<lparr>Status := STATUS_REVOKED\<rparr>)"
      "sample_license\<lparr>Status := STATUS_REVOKED\<rparr>"
      "sample_license\<lparr>Status := STATUS_REVOKED\<rparr>" "Some sample_license"]
  by (simp add: UpdateLicense_def Let_def Bind_def respond_def sample_handler_def slot_store_def
      license_request_def sample_license_def)

text \<open>
  The claim C3 as it was stated fails: the stored record is \<open>ready\<close>, the payload says
  \<open>revoked\<close>, and the record handed to \<open>Update\<close> is \<open>revoked\<close>.
\<close>

theorem UpdateLicense_status_counterexample:
  "Get (Store sample_handler) (Some sample_license) ''lic-1''
     = (Inr sample_license, Some sample_license)
   \<and> calls (UpdateLicense sample_handler (Some sample_license)
        (license_request ''lic-1'' (sample_license\<lparr>Status := STATUS_REVOKED\<rparr>)))
     = [Call_Get ''lic-1'', Call_Update (sample_license\<lparr>Status := STATUS_REVOKED\<rparr>)]
   \<and> Status (sample_license\<lparr>Status := STATUS_REVOKED\<rparr>) \<noteq> Status sample_license"
  by (simp add: UpdateLicense_def Let_def Bind_def respond_def sample_handler_def slot_store_def
      license_request_def sample_license_def STATUS_REVOKED_def)

text \<open>
  C4, as the code has it. \<open>UpdateLicense\<close> does not set \<open>UpdatedAt\<close>: the record it
  hands to the store's \<open>Update\<close> has the \<open>UpdatedAt\<close> of the request payload, beside the
  \<open>CreatedAt\<close> of the stored record.
\<close>

theorem UpdateLicense_UpdatedAt_of_payload:
  assumes "Bind h r = Inr (Some p)"
    and "Call_Update lic \<in> set (calls (UpdateLicense h s r))"
  shows "UpdatedAt lic = UpdatedAt p"
  using UpdateLicense_written [OF assms(2)] assms(1) by auto

theorem UpdateLicense_UpdatedAt_of_payload_witness:
  "Bind sample_handler (license_request ''lic-1'' (sample_license\<lparr>UpdatedAt := 123\<rparr>))
     = Inr (Some (sample_license\<lparr>UpdatedAt := 123\<rparr>))
   \<and> Call_Update (sample_license\<lparr>UpdatedAt := 123\<rparr>)
       \<in> set (calls (UpdateLicense sample_handler (Some sample_license)
           (license_request ''lic-1'' (sample_license\<lparr>UpdatedAt := 123\<rparr>))))
   \<and> UpdatedAt (sample_license\<lparr>UpdatedAt := 123\<rparr>) = 123"
  using UpdateLicense_UpdatedAt_of_payload [of sample_handler
      "license_request ''lic-1'' (sample_license\<lparr>UpdatedAt := 123\<rparr>)"
      "sample_license\<lparr>UpdatedAt := 123\<rparr>"
      "sample_license\<lparr>UpdatedAt := 123\<rparr>" "Some sample_license"]
  by (simp add: UpdateLicense_def Let_def Bind_def respond_def sample_handler_def slot_store_def
      license_request_def sample_license_def)

text \<open>
  The claim C4 as it was stated fails: a payload with \<open>CreatedAt = UpdatedAt = 0\<close> updates
  a record created at 500; the update succeeds, and the record handed to \<open>Update\<close> has
  \<open>CreatedAt = 500\<close> and \<open>UpdatedAt = 0\<close>, the value of the payload.
\<close>

theorem UpdateLicense_UpdatedAt_counterexample:
  "calls (UpdateLicense sample_handler (Some sample_license)
        (license_request ''lic-1'' (sample_license\<lparr>CreatedAt := 0, UpdatedAt := 0\<rparr>)))
     = [Call_Get ''lic-1'', Call_Update (sample_license\<lparr>CreatedAt := 500, UpdatedAt := 0\<rparr>)]
   \<and> writes (UpdateLicense sample_handler (Some sample_license)
        (license_request ''lic-1'' (sample_license\<lparr>CreatedAt := 0, UpdatedAt := 0\<rparr>)))
     = [Rendered 200 (sample_license\<lparr>CreatedAt := 500, UpdatedAt := 0\<rparr>)]
   \<and> \<not> CreatedAt (sample_license\<lparr>CreatedAt := 500, UpdatedAt := 0\<rparr>)
         \<le> UpdatedAt (sample_license\<lparr>CreatedAt := 500, UpdatedAt := 0\<rparr>)"
  by (simp add: UpdateLicense_def Let_def Bind_def respond_def sample_handler_def slot_store_def
      license_request_def sample_license_def)



section \<open>Absent records\<close>

lemma GetLicense_run:
  assumes "URLParam r ''licenseID'' \<noteq> []"
    and "Get (Store h) s (URLParam r ''licenseID'') = (res, s1)"
  shows "GetLicense h s r =
           respond [case res of Inl err \<Rightarrow> ErrNotFound | Inr license \<Rightarrow> Rendered 200 license]
             [Call_Get (URLParam r ''licenseID'')] s1"
  using assms by (cases res) (simp_all add: GetLicense_def Let_def)

lemma GetLicense_no_id:
  assumes "URLParam r ''licenseID'' = []"
  shows "GetLicense h s r =
           respond [ErrInvalidRequest (Error ''missing required license identifier'')] [] s"
  using assms by (simp add: GetLicense_def Let_def)

lemma DeleteLicense_absent:
  assumes "URLParam r ''licenseID'' \<noteq> []"
    and "Get (Store h) s (URLParam r ''licenseID'') = (Inl err, s1)"
  shows "DeleteLicense h s r = respond [ErrNotFound] [Call_Get (URLParam r ''licenseID'')] s1"
  using assms by (simp add: DeleteLicense_def Let_def)

lemma DeleteLicense_no_id:
  assumes "URLParam r ''licenseID'' = []"
  shows "DeleteLicense h s r = respond [ErrNotFound] [] s"
  using assms by (simp add: DeleteLicense_def Let_def)

lemma UpdateLicense_Get_called:
  assumes "Call_Get k \<in> set (calls (UpdateLicense h s r))"
  shows "k = URLParam r ''licenseID'' \<and> k \<noteq> [] \<and> (\<exists>data. Bind h r = Inr data)"
proof -
  let ?k = "URLParam r ''licenseID''"
  have k: "?k \<noteq> []" and nb: "\<forall>err. Bind h r \<noteq> Inl err"
    using assms UpdateLicense_no_call [of h r s] by auto
  from nb obtain data where b: "Bind h r = Inr data"
    by (cases "Bind h r") auto
  obtain res s1 where g: "Get (Store h) s ?k = (res, s1)"
    by (cases "Get (Store h) s ?k")
  have "k = ?k"
  proof (cases res)
    case (Inl err)
    with g have "Get (Store h) s ?k = (Inl err, s1)" by simp
    from UpdateLicense_absent [OF b k this] assms show ?thesis
      by (simp add: respond_def)
  next
    case (Inr cur)
    with g have g': "Get (Store h) s ?k = (Inr cur, s1)" by simp
    show ?thesis
    proof (cases data)
      case None
      with b have "Bind h r = Inr None" by simp
      from UpdateLicense_nil_payload [OF this k g'] assms show ?thesis
        by (simp add: panic_def)
    next
      case (Some p)
      with b have b': "Bind h r = Inr (Some p)" by simp
      obtain e lic' s2 where
        u: "Update (Store h) s1 (p\<lparr>ID := ID cur, CreatedAt := CreatedAt cur\<rparr>) = ((e, lic'), s2)"
        by (metis prod.collapse)
      from UpdateLicense_run [OF b' k g' u] assms show ?thesis
        by (simp add: respond_def)
    qed
  qed
  with k b show ?thesis by simp
qed

text \<open>
  C6. Absent records surface as \<open>NotFound\<close> and cause no mutation: when \<open>GetLicense\<close>,
  \<open>UpdateLicense\<close> or \<open>DeleteLicense\<close> calls the store's \<open>Get\<close> and it fails, the handler
  writes \<open>ErrNotFound\<close> and nothing else, and \<open>Get\<close> is its only store call (no
  \<open>Update\<close>, no \<open>Delete\<close>); and \<open>GetLicense\<close> writes \<open>ErrNotFound\<close> exactly when it
  called \<open>Get\<close> and \<open>Get\<close> returned an error.
\<close>

theorem absent_license_NotFound:
  "(\<forall>k. Call_Get k \<in> set (calls (GetLicense h s r)) \<and> isl (fst (Get (Store h) s k))
        \<longrightarrow> writes (GetLicense h s r) = [ErrNotFound]
          \<and> calls (GetLicense h s r) = [Call_Get k])
   \<and> (\<forall>k. Call_Get k \<in> set (calls (UpdateLicense h s r)) \<and> isl (fst (Get (Store h) s k))
        \<longrightarrow> writes (UpdateLicense h s r) = [ErrNotFound]
          \<and> calls (UpdateLicense h s r) = [Call_Get k])
   \<and> (\<forall>k. Call_Get k \<in> set (calls (DeleteLicense h s r)) \<and> isl (fst (Get (Store h) s k))
        \<longrightarrow> writes (DeleteLicense h s r) = [ErrNotFound]
          \<and> calls (DeleteLicense h s r) = [Call_Get k])
   \<and> (ErrNotFound \<in> set (writes (GetLicense h s r))
        \<longleftrightarrow> (\<exists>k. Call_Get k \<in> set (calls (GetLicense h s r)) \<and> isl (fst (Get (Store h) s k))))"
proof -
  let ?k = "URLParam r ''licenseID''"
  obtain res s1 where g: "Get (Store h) s ?k = (res, s1)"
    by (cases "Get (Store h) s ?k")
  have get: "\<forall>k. Call_Get k \<in> set (calls (GetLicense h s r)) \<and> isl (fst (Get (Store h) s k))
        \<longrightarrow> writes (GetLicense h s r) = [ErrNotFound]
          \<and> calls (GetLicense h s r) = [Call_Get k]"
  proof (cases "?k = []")
    case True
    then show ?thesis by (simp add: GetLicense_no_id respond_def)
  next
    case False
    from GetLicense_run [OF False g] g show ?thesis
      by (cases res) (auto simp: respond_def)
  qed
  have upd: "\<forall>k. Call_Get k \<in> set (calls (UpdateLicense h s r)) \<and> isl (fst (Get (Store h) s k))
        \<longrightarrow> writes (UpdateLicense h s r) = [ErrNotFound]
          \<and> calls (UpdateLicense h s r) = [Call_Get k]"
  proof (intro allI impI)
    fix k
    assume a: "Call_Get k \<in> set (calls (UpdateLicense h s r)) \<and> isl (fst (Get (Store h) s k))"
    with UpdateLicense_Get_called [of k h s r] obtain data
      where k: "k = ?k" "?k \<noteq> []" and b: "Bind h r = Inr data"
      by blast
    from a k g obtain err where "res = Inl err" by (cases res) auto
    with g have "Get (Store h) s ?k = (Inl err, s1)" by simp
    from UpdateLicense_absent [OF b k(2) this] k(1)
    show "writes (UpdateLicense h s r) = [ErrNotFound]
          \<and> calls (UpdateLicense h s r) = [Call_Get k]"
      by (simp add: respond_def)
  qed
  have del: "\<forall>k. Call_Get k \<in> set (calls (DeleteLicense h s r)) \<and> isl (fst (Get (Store h) s k))
        \<longrightarrow> writes (DeleteLicense h s r) = [ErrNotFound]
          \<and> calls (DeleteLicense h s r) = [Call_Get k]"
  proof (cases "?k = []")
    case True
    then show ?thesis by (simp add: DeleteLicense_no_id respond_def)
  next
    case False
    show ?thesis
    proof (cases res)
      case (Inl err)
      with g have "Get (Store h) s ?k = (Inl err, s1)" by simp
      from DeleteLicense_absent [OF False this] show ?thesis
        by (simp add: respond_def)
    next
      case (Inr license)
      obtain e lic' s2 where d: "Delete (Store h) s1 license = ((e, lic'), s2)"
        by (metis prod.collapse)
      have "calls (DeleteLicense h s r) = [Call_Get ?k, Call_Delete license]"
        using False g Inr d by (cases e) (simp_all add: DeleteLicense_def Let_def respond_def)
      with g Inr show ?thesis by auto
    qed
  qed
  have iff: "ErrNotFound \<in> set (writes (GetLicense h s r))
        \<longleftrightarrow> (\<exists>k. Call_Get k \<in> set (calls (GetLicense h s r)) \<and> isl (fst (Get (Store h) s k)))"
  proof (cases "?k = []")
    case True
    then show ?thesis by (simp add: GetLicense_no_id respond_def)
  next
    case False
    from GetLicense_run [OF False g] g show ?thesis
      by (cases res) (auto simp: respond_def)
  qed
  show ?thesis
    by (rule conjI [OF get conjI [OF upd conjI [OF del iff]]])
qed

theorem absent_license_NotFound_witness:
  "(Call_Get ''lic-1'' \<in> set (calls (GetLicense sample_handler None
        (license_request ''lic-1'' sample_license)))
      \<and> isl (fst (Get (Store sample_handler) None ''lic-1'')))
   \<and> (writes (GetLicense sample_handler None (license_request ''lic-1'' sample_license))
        = [ErrNotFound]
      \<and> calls (GetLicense sample_handler None (license_request ''lic-1'' sample_license))
        = [Call_Get ''lic-1''])
   \<and> (Call_Get ''lic-1'' \<in> set (calls (UpdateLicense sample_handler None
        (license_request ''lic-1'' sample_license)))
      \<and> isl (fst (Get (Store sample_handler) None ''lic-1'')))
   \<and> (writes (UpdateLicense sample_handler None (license_request ''lic-1'' sample_license))
        = [ErrNotFound]
      \<and> calls (UpdateLicense sample_handler None (license_request ''lic-1'' sample_license))
        = [Call_Get ''lic-1''])
   \<and> (Call_Get ''lic-1'' \<in> set (calls (DeleteLicense sample_handler None
        (license_request ''lic-1'' sample_license)))
      \<and> isl (fst (Get (Store sample_handler) None ''lic-1'')))
   \<and> (writes (DeleteLicense sample_handler None (license_request ''lic-1'' sample_license))
        = [ErrNotFound]
      \<and> calls (DeleteLicense sample_handler None (license_request ''lic-1'' sample_license))
        = [Call_Get ''lic-1''])"
proof -
  note t = absent_license_NotFound [of sample_handler None "license_request ''lic-1'' sample_license"]
  have g: "Call_Get ''lic-1'' \<in> set (calls (GetLicense sample_handler None
        (license_request ''lic-1'' sample_license)))
      \<and> isl (fst (Get (Store sample_handler) None ''lic-1''))"
    by (simp add: GetLicense_def Let_def respond_def sample_handler_def slot_store_def
        license_request_def)
  have u: "Call_Get ''lic-1'' \<in> set (calls (UpdateLicense sample_handler None
        (license_request ''lic-1'' sample_license)))
      \<and> isl (fst (Get (Store sample_handler) None ''lic-1''))"
    by (simp add: UpdateLicense_def Bind_def Let_def respond_def sample_handler_def
        slot_store_def license_request_def)
  have d: "Call_Get ''lic-1'' \<in> set (calls (DeleteLicense sample_handler None
        (license_request ''lic-1'' sample_license)))
      \<and> isl (fst (Get (Store sample_handler) None ''lic-1''))"
    by (simp add: DeleteLicense_def Let_def respond_def sample_handler_def slot_store_def
        license_request_def)
  note g' = t [THEN conjunct1, THEN spec, THEN mp, OF g]
  note u' = t [THEN conjunct2, THEN conjunct1, THEN spec, THEN mp, OF u]
  note d' = t [THEN conjunct2, THEN conjunct2, THEN conjunct1, THEN spec, THEN mp, OF d]
  show ?thesis
    by (rule conjI [OF g conjI [OF g' conjI [OF u conjI [OF u' conjI [OF d d']]]]])
qed

section \<open>Searching licenses\<close>

lemma render_licenses_outcome:
  "render_licenses ws cs res =
     \<lparr>writes = ws @ [case fst res of Inl err \<Rightarrow> ErrRender err
                                    | Inr licenses \<Rightarrow> RenderedList licenses],
      calls = cs, db = snd res, panicked = False\<rparr>"
  by (cases res, cases "fst res") (simp_all add: render_licenses_def respond_def)

lemma render_licenses_calls: "calls (render_licenses ws cs res) = cs"
  by (simp add: render_licenses_outcome)

text \<open>
  C9, at the input \<open>count=a:5\<close> (no \<open>user\<close>, \<open>pub\<close> or \<open>status\<close>). The parameter has
  two parts and the first is no integer. \<open>SearchLicenses\<close> writes the invalid-request
  error, then queries the store with the bounds 0 and 5, and writes a second response,
  the list the store returned.
\<close>

theorem SearchLicenses_count_unparsed_part:
  "SearchLicenses sample_handler None (search_request [] [] [] ''a:5'') =
     \<lparr>writes = [ErrInvalidRequest (NumError ''Atoi'' ''a'' ErrSyntax), RenderedList []],
      calls = [Call_FindByDeviceCount 0 5],
      db = None,
      panicked = False\<rparr>"
  by (simp add: SearchLicenses_def Let_def search_request_def Atoi_def is_digit_def
      render_licenses_def respond_def sample_handler_def slot_store_def slot_licenses_def)

text \<open>
  C10, as the code has it. \<open>SearchLicenses\<close> applies the criterion of the first non-empty
  parameter in the order \<open>user\<close>, \<open>pub\<close>, \<open>status\<close>, \<open>count\<close>, and never makes more than
  one store query. For \<open>user\<close>, \<open>pub\<close> and \<open>status\<close> it makes the one store query of that
  criterion and writes what the store returned. For \<open>count\<close> it makes the one query by
  device count, with the two bounds, when the parameter is two integers separated by a
  colon, and writes what the store returned; when the parameter does not have exactly
  two parts it writes the invalid-request error and makes no store query. With none of
  the four parameters it writes \<open>ErrNotFound\<close> and makes no store query.
\<close>

theorem SearchLicenses_precedence:
  "(query r ''user'' \<noteq> [] \<longrightarrow>
      single_query (Call_FindByUser (query r ''user''))
        (FindByUser (Store h) s (query r ''user'')) (SearchLicenses h s r))
   \<and> (query r ''user'' = [] \<and> query r ''pub'' \<noteq> [] \<longrightarrow>
      single_query (Call_FindByPublication (query r ''pub''))
        (FindByPublication (Store h) s (query r ''pub'')) (SearchLicenses h s r))
   \<and> (query r ''user'' = [] \<and> query r ''pub'' = [] \<and> query r ''status'' \<noteq> [] \<longrightarrow>
      single_query (Call_FindByStatus (query r ''status''))
        (FindByStatus (Store h) s (query r ''status'')) (SearchLicenses h s r))
   \<and> (query r ''user'' = [] \<and> query r ''pub'' = [] \<and> query r ''status'' = []
        \<and> query r ''count'' \<noteq> [] \<and> Split (query r ''count'') CHR '':'' = [a, b]
        \<and> Atoi (IntSize h) a = (lo, None) \<and> Atoi (IntSize h) b = (hi, None) \<longrightarrow>
      single_query (Call_FindByDeviceCount lo hi)
        (FindByDeviceCount (Store h) s lo hi) (SearchLicenses h s r))
   \<and> (query r ''user'' = [] \<and> query r ''pub'' = [] \<and> query r ''status'' = []
        \<and> query r ''count'' \<noteq> [] \<and> length (Split (query r ''count'') CHR '':'') \<noteq> 2 \<longrightarrow>
      no_query (ErrInvalidRequest (Error (''invalid count parameter: '' @ query r ''count''))) s
        (SearchLicenses h s r))
   \<and> (query r ''user'' = [] \<and> query r ''pub'' = [] \<and> query r ''status'' = []
        \<and> query r ''count'' = [] \<longrightarrow>
      no_query ErrNotFound s (SearchLicenses h s r))
   \<and> length (calls (SearchLicenses h s r)) \<le> 1"
proof -
  have user: "query r ''user'' \<noteq> [] \<longrightarrow>
      single_query (Call_FindByUser (query r ''user''))
        (FindByUser (Store h) s (query r ''user'')) (SearchLicenses h s r)"
    by (simp add: SearchLicenses_def Let_def render_licenses_outcome single_query_def)
  have pub: "query r ''user'' = [] \<and> query r ''pub'' \<noteq> [] \<longrightarrow>
      single_query (Call_FindByPublication (query r ''pub''))
        (FindByPublication (Store h) s (query r ''pub'')) (SearchLicenses h s r)"
    by (simp add: SearchLicenses_def Let_def render_licenses_outcome single_query_def)
  have status: "query r ''user'' = [] \<and> query r ''pub'' = [] \<and> query r ''status'' \<noteq> [] \<longrightarrow>
      single_query (Call_FindByStatus (query r ''status''))
        (FindByStatus (Store h) s (query r ''status'')) (SearchLicenses h s r)"
    by (simp add: SearchLicenses_def Let_def render_licenses_outcome single_query_def)
  have count: "query r ''user'' = [] \<and> query r ''pub'' = [] \<and> query r ''status'' = []
        \<and> query r ''count'' \<noteq> [] \<and> Split (query r ''count'') CHR '':'' = [a, b]
        \<and> Atoi (IntSize h) a = (lo, None) \<and> Atoi (IntSize h) b = (hi, None) \<longrightarrow>
      single_query (Call_FindByDeviceCount lo hi)
        (FindByDeviceCount (Store h) s lo hi) (SearchLicenses h s r)"
    by (simp add: SearchLicenses_def Let_def render_licenses_outcome single_query_def)
  have parts: "query r ''user'' = [] \<and> query r ''pub'' = [] \<and> query r ''status'' = []
        \<and> query r ''count'' \<noteq> [] \<and> length (Split (query r ''count'') CHR '':'') \<noteq> 2 \<longrightarrow>
      no_query (ErrInvalidRequest (Error (''invalid count parameter: '' @ query r ''count''))) s
        (SearchLicenses h s r)"
    by (simp add: SearchLicenses_def Let_def respond_def no_query_def)
  have none: "query r ''user'' = [] \<and> query r ''pub'' = [] \<and> query r ''status'' = []
        \<and> query r ''count'' = [] \<longrightarrow>
      no_query ErrNotFound s (SearchLicenses h s r)"
    by (simp add: SearchLicenses_def Let_def respond_def no_query_def)
  have le: "length (calls (SearchLicenses h s r)) \<le> 1"
    by (simp add: SearchLicenses_def Let_def render_licenses_calls case_prod_beta respond_def)
  show ?thesis
    by (rule conjI [OF user conjI [OF pub conjI [OF status conjI [OF count
          conjI [OF parts conjI [OF none le]]]]]])
qed

theorem SearchLicenses_precedence_witness:
  "query (search_request ''u1'' ''p1'' ''ready'' ''1:2'') ''user'' \<noteq> []
   \<and> SearchLicenses sample_handler (Some sample_license)
        (search_request ''u1'' ''p1'' ''ready'' ''1:2'')
       = \<lparr>writes = [RenderedList [sample_license]], calls = [Call_FindByUser ''u1''],
          db = Some sample_license, panicked = False\<rparr>
   \<and> (query (search_request [] [] [] ''1:2'') ''user'' = []
      \<and> query (search_request [] [] [] ''1:2'') ''pub'' = []
      \<and> query (search_request [] [] [] ''1:2'') ''status'' = []
      \<and> query (search_request [] [] [] ''1:2'') ''count'' \<noteq> []
      \<and> Split (query (search_request [] [] [] ''1:2'') ''count'') CHR '':'' = [''1'', ''2'']
      \<and> Atoi (IntSize sample_handler) ''1'' = (1, None)
      \<and> Atoi (IntSize sample_handler) ''2'' = (2, None))
   \<and> SearchLicenses sample_handler (Some sample_license) (search_request [] [] [] ''1:2'')
       = \<lparr>writes = [RenderedList [sample_license]], calls = [Call_FindByDeviceCount 1 2],
          db = Some sample_license, panicked = False\<rparr>
   \<and> (query (search_request [] [] [] []) ''user'' = []
      \<and> query (search_request [] [] [] []) ''pub'' = []
      \<and> query (search_request [] [] [] []) ''status'' = []
      \<and> query (search_request [] [] [] []) ''count'' = [])
   \<and> SearchLicenses sample_handler (Some sample_license) (search_request [] [] [] [])
       = \<lparr>writes = [ErrNotFound], calls = [], db = Some sample_license, panicked = False\<rparr>"
proof -
  note t1 = SearchLicenses_precedence [where r = "search_request ''u1'' ''p1'' ''ready'' ''1:2''"
      and h = sample_handler and s = "Some sample_license"]
  note t2 = SearchLicenses_precedence [where r = "search_request [] [] [] ''1:2''"
      and h = sample_handler and s = "Some sample_license"
      and a = "''1''" and b = "''2''" and lo = 1 and hi = 2]
  note t3 = SearchLicenses_precedence [where r = "search_request [] [] [] []"
      and h = sample_handler and s = "Some sample_license"]
  have h1: "query (search_request ''u1'' ''p1'' ''ready'' ''1:2'') ''user'' \<noteq> []"
    by (simp add: search_request_def)
  have h2: "query (search_request [] [] [] ''1:2'') ''user'' = []
      \<and> query (search_request [] [] [] ''1:2'') ''pub'' = []
      \<and> query (search_request [] [] [] ''1:2'') ''status'' = []
      \<and> query (search_request [] [] [] ''1:2'') ''count'' \<noteq> []
      \<and> Split (query (search_request [] [] [] ''1:2'') ''count'') CHR '':'' = [''1'', ''2'']
      \<and> Atoi (IntSize sample_handler) ''1'' = (1, None)
      \<and> Atoi (IntSize sample_handler) ''2'' = (2, None)"
    by (simp add: search_request_def sample_handler_def Atoi_def is_digit_def)
  have h3: "query (search_request [] [] [] []) ''user'' = []
      \<and> query (search_request [] [] [] []) ''pub'' = []
      \<and> query (search_request [] [] [] []) ''status'' = []
      \<and> query (search_request [] [] [] []) ''count'' = []"
    by (simp add: search_request_def)
  have store: "FindByUser (Store sample_handler) (Some sample_license) ''u1''
        = (Inr [sample_license], Some sample_license)"
      "FindByDeviceCount (Store sample_handler) (Some sample_license) 1 2
        = (Inr [sample_license], Some sample_license)"
    by (simp_all add: sample_handler_def slot_store_def slot_licenses_def)
  have q1: "query (search_request ''u1'' ''p1'' ''ready'' ''1:2'') ''user'' = ''u1''"
    by (simp add: search_request_def)
  have c1: "SearchLicenses sample_handler (Some sample_license)
        (search_request ''u1'' ''p1'' ''ready'' ''1:2'')
       = \<lparr>writes = [RenderedList [sample_license]], calls = [Call_FindByUser ''u1''],
          db = Some sample_license, panicked = False\<rparr>"
    using t1 [THEN conjunct1, THEN mp, OF h1]
    by (simp add: single_query_def q1 store)
  have c2: "SearchLicenses sample_handler (Some sample_license) (search_request [] [] [] ''1:2'')
       = \<lparr>writes = [RenderedList [sample_license]], calls = [Call_FindByDeviceCount 1 2],
          db = Some sample_license, panicked = False\<rparr>"
    using t2 [THEN conjunct2, THEN conjunct2, THEN conjunct2, THEN conjunct1, THEN mp, OF h2]
    by (simp add: single_query_def store)
  have c3: "SearchLicenses sample_handler (Some sample_license) (search_request [] [] [] [])
       = \<lparr>writes = [ErrNotFound], calls = [], db = Some sample_license, panicked = False\<rparr>"
    using t3 [THEN conjunct2, THEN conjunct2, THEN conjunct2, THEN conjunct2,
        THEN conjunct2, THEN conjunct1, THEN mp, OF h3]
    by (simp add: no_query_def)
  show ?thesis
    by (rule conjI [OF h1 conjI [OF c1 conjI [OF h2 conjI [OF c2 conjI [OF h3 c3]]]]])
qed

text \<open>
  The claim C10 as it was stated fails: with \<open>count=7\<close> as the only parameter the first
  non-empty parameter is \<open>count\<close>, and \<open>SearchLicenses\<close> makes no store query at all, where
  the claim has a single store query made for it.
\<close>

theorem SearchLicenses_precedence_counterexample:
  "query (search_request [] [] [] ''7'') ''user'' = []
   \<and> query (search_request [] [] [] ''7'') ''pub'' = []
   \<and> query (search_request [] [] [] ''7'') ''status'' = []
   \<and> query (search_request [] [] [] ''7'') ''count'' = ''7''
   \<and> SearchLicenses sample_handler (Some sample_license) (search_request [] [] [] ''7'')
       = \<lparr>writes = [ErrInvalidRequest (Error ''invalid count parameter: 7'')], calls = [],
          db = Some sample_license, panicked = False\<rparr>"
  by (simp add: SearchLicenses_def Let_def search_request_def respond_def)

section \<open>Renewal\<close>

text \<open>
  C8. For every successful \<open>renew\<close>, the new end is not less than the previous end of
  the record, and when the record has a \<open>maxEnd\<close> the new end is at most \<open>maxEnd\<close>; the
  new end is also at most the \<open>maxEnd\<close> of the updated record.
\<close>

theorem renew_end_bounds:
  assumes "renew lic requestedEnd now maxRenewDays = Inr lic'"
  shows "\<exists>newEnd. End lic' = Some newEnd
           \<and> (\<forall>e. End lic = Some e \<longrightarrow> e \<le> newEnd)
           \<and> (\<forall>m. MaxEnd lic = Some m \<longrightarrow> newEnd \<le> m)
           \<and> (\<exists>m'. MaxEnd lic' = Some m' \<and> newEnd \<le> m')"
  using assms
  by (auto simp: renew_def Let_def split: if_splits option.splits)

theorem renew_end_bounds_witness:
  "renew (sample_license\<lparr>MaxEnd := Some 5000\<rparr>) (Some 1500) 900 30
     = Inr (sample_license\<lparr>MaxEnd := Some 5000, End := Some 1500, UpdatedAt := 900\<rparr>)
   \<and> End sample_license = Some 1000
   \<and> End (sample_license\<lparr>MaxEnd := Some 5000, End := Some 1500, UpdatedAt := 900\<rparr>) = Some 1500
   \<and> (1000::int) \<le> 1500 \<and> (1500::int) \<le> 5000"
proof -
  have r: "renew (sample_license\<lparr>MaxEnd := Some 5000\<rparr>) (Some 1500) 900 30
     = Inr (sample_license\<lparr>MaxEnd := Some 5000, End := Some 1500, UpdatedAt := 900\<rparr>)"
    by (simp add: renew_def currentStatus_def is_terminal_def sample_license_def Let_def
        STATUS_READY_def STATUS_ACTIVE_def STATUS_RETURNED_def STATUS_REVOKED_def
        STATUS_CANCELLED_def STATUS_EXPIRED_def)
  from renew_end_bounds [OF r] r show ?thesis
    by (simp add: sample_license_def)
qed

end
